theory Spec2Isabelle
  imports Main "HOL-Library.Log_Nat"
begin

section \<open>JavaScript values used by the routes\<close>

text \<open>
  A JavaScript Number that holds an integer, or one of the three non-integer results
  \<^verbatim>\<open>parseInt\<close> can give. \<open>Num n\<close> is the Number whose value is the integer \<open>n\<close>
  (\<open>-0\<close> and \<open>+0\<close> are both \<open>Num 0\<close>).
\<close>

datatype js_number = NaN | PosInfinity | NegInfinity | Num int

text \<open>What a \<^verbatim>\<open>throw\<close> carries: the error class and its message.\<close>

datatype js_error = ReferenceError string | TypeError string | Error string

section \<open>The user collaborator (models/User.js)\<close>

text \<open>
  \<^verbatim>\<open>user.UserObject\<close>: the identity a route serialises. The spec's UserIdentity has a
  numeric id, an email and first/last name; the signup scenario sends no last name, so
  that field is optional.
\<close>

record user_object =
  uo_id :: int
  uo_email :: string
  uo_firstName :: string
  uo_lastName :: "string option"

record user_db =
  db_rows :: "user_object list"
  db_next_id :: int

text \<open>
  The class \<^verbatim>\<open>User\<close> (src/models/User.js) is imported by the routes but its file is not
  part of the sources; its three methods are modelled from the spec, section 6:
  "External user collaborator contract: Load(id) -> found/not-found, Create(email,
  firstName, lastName, password) -> ok/conflict, Delete(id) -> found/not-found". A result
  \<open>Some u\<close> stands for the boolean \<^verbatim>\<open>true\<close> together with the \<^verbatim>\<open>UserObject\<close> the
  instance then holds, \<open>None\<close> for \<^verbatim>\<open>false\<close>.
\<close>

text \<open>
  Modelled from the spec: \<^verbatim>\<open>User.Load\<close> is missing. "Load(id) -> found/not-found": the
  row with that id, if there is one. No row has an id that is not an integer.
\<close>

definition Load :: "user_db \<Rightarrow> js_number \<Rightarrow> user_object option" where
  "Load d n = (case n of
       Num i \<Rightarrow> find (\<lambda>u. uo_id u = i) (db_rows d)
     | _ \<Rightarrow> None)"

text \<open>
  Modelled from the spec: \<^verbatim>\<open>User.Create\<close> is missing. "Create(email, firstName,
  lastName, password) -> ok/conflict", "409 on duplicate account", where the signup
  scenario identifies an account by its email. The persistence assigns the id of the
  new row (\<open>db_next_id\<close>); the password is handed over but its storage is outside this
  model.
\<close>

definition Create ::
  "user_db \<Rightarrow> string \<Rightarrow> string \<Rightarrow> string option \<Rightarrow> string \<Rightarrow> user_object option \<times> user_db" where
  "Create d email firstName lastName password =
     (case find (\<lambda>u. uo_email u = email) (db_rows d) of
        Some existing \<Rightarrow> (None, d)
      | None \<Rightarrow>
          (let u = \<lparr>uo_id = db_next_id d, uo_email = email,
                    uo_firstName = firstName, uo_lastName = lastName\<rparr>
           in (Some u, d\<lparr>db_rows := db_rows d @ [u], db_next_id := db_next_id d + 1\<rparr>)))"

text \<open>
  Modelled from the spec: \<^verbatim>\<open>User.Delete\<close> is missing. "Delete(id) -> found/not-found":
  the rows with that id are removed. The spec does not say what \<^verbatim>\<open>UserObject\<close> holds
  after a deletion; the model takes the row that was found.
\<close>

definition Delete :: "user_db \<Rightarrow> js_number \<Rightarrow> user_object option \<times> user_db" where
  "Delete d n =
     (case Load d n of
        None \<Rightarrow> (None, d)
      | Some u \<Rightarrow> (Some u, d\<lparr>db_rows := filter (\<lambda>r. uo_id r \<noteq> uo_id u) (db_rows d)\<rparr>))"

section \<open>Sessions, requests and responses\<close>

text \<open>
  \<^verbatim>\<open>req.session.cookie\<close>: the cookie policy of one session. \<open>maxAge = None\<close> is a
  browser-session cookie (no \<^verbatim>\<open>maxAge\<close> set).
\<close>

record session_cookie =
  maxAge :: "int option"
  secure :: bool
  httpOnly :: bool
  sameSite :: string

text \<open>
  \<^verbatim>\<open>req.session\<close>. \<open>user_id = None\<close> is \<^verbatim>\<open>!('user_id' in req.session)\<close>.
\<close>

record session =
  session_id :: string
  user_id :: "int option"
  cookie :: session_cookie

text \<open>
  What a route handler reads and writes: the user collaborator, the session store, the
  session attached to the request (\<open>None\<close> once it has been destroyed) and whether the
  response clears the session cookie.
\<close>

record ctx =
  db :: user_db
  store :: "string \<rightharpoonup> session"
  req_session :: "session option"
  res_clearCookie :: bool

datatype json_body = UserJson user_object | Message string | StatusText

record response =
  res_status :: nat
  res_body :: json_body

text \<open>
  A handler either sends a response or hands an error to \<^verbatim>\<open>next(err)\<close>.
\<close>

datatype outcome = Sent response | Next js_error

text \<open>
  Modelled from the spec: \<^verbatim>\<open>DeleteSession\<close> (src/routes/Helpers.js) is imported by the
  routes but its file is not part of the sources. Spec, section 4.3: "destroy the session
  (remove it from SessionStore and clear the response cookie)"; section 4.1: Destroy is
  "idempotent; no error if absent". A destroyed session is no longer attached to the
  request.
\<close>

definition DeleteSession :: "ctx \<Rightarrow> ctx" where
  "DeleteSession c =
     (case req_session c of
        None \<Rightarrow> c\<lparr>res_clearCookie := True\<rparr>
      | Some s \<Rightarrow> c\<lparr>store := (store c)(session_id s := None),
                     req_session := None, res_clearCookie := True\<rparr>)"

section \<open>The resolver and GET /user (routes)\<close>

text \<open>
  \<^verbatim>\<open>_LoadLoggedInUser(req, res)\<close>. \<open>Inr None\<close> is \<^verbatim>\<open>return null\<close>, \<open>Inr (Some u)\<close> the
  loaded \<^verbatim>\<open>User\<close>, \<open>Inl e\<close> a \<^verbatim>\<open>throw\<close>. The \<^verbatim>\<open>in\<close> operator on a request without a
  session raises a TypeError.
\<close>

definition LoadLoggedInUser :: "ctx \<Rightarrow> (js_error + user_object option) \<times> ctx" where
  "LoadLoggedInUser c =
     (case req_session c of
        None \<Rightarrow> (Inl (TypeError ''Cannot use 'in' operator to search for 'user_id' in undefined''), c)
      | Some s \<Rightarrow>
          (case user_id s of
             None \<Rightarrow> (Inr None, c)
           | Some uid \<Rightarrow>
               (case Load (db c) (Num uid) of
                  Some u \<Rightarrow> (Inr (Some u), c)
                | None \<Rightarrow>
                    (Inl (Error ''stale user session deleted, please try again''),
                     DeleteSession c))))"

definition GetUser :: "ctx \<Rightarrow> outcome \<times> ctx" where
  "GetUser c =
     (case LoadLoggedInUser c of
        (Inl err, c1) \<Rightarrow> (Next err, c1)
      | (Inr (Some user), c1) \<Rightarrow> (Sent \<lparr>res_status = 200, res_body = UserJson user\<rparr>, c1)
      | (Inr None, c1) \<Rightarrow>
          (Sent \<lparr>res_status = 202, res_body = Message ''user not logged in''\<rparr>, c1))"

section \<open>POST /users (routes)\<close>

text \<open>
  \<^verbatim>\<open>Config.server.session\<close>: the options handed to the session middleware, and the
  remember-me duration in days.
\<close>

record session_config =
  sc_name :: string
  sc_cookie :: session_cookie
  sc_resave :: bool
  sc_saveUninitialized :: bool
  sc_maxAgeDays :: int

text \<open>
  \<^verbatim>\<open>req.body\<close> of a signup. \<open>b_rememberMe\<close> is the truthiness of \<^verbatim>\<open>rememberMe\<close> (an
  absent field is falsy).
\<close>

record signup_body =
  b_firstName :: string
  b_lastName :: "string option"
  b_email :: string
  b_password :: string
  b_rememberMe :: bool

text \<open>
  The pair \<^verbatim>\<open>{ error, message }\<close> that \<^verbatim>\<open>SignupRequest.validateRequest\<close> returns. The
  validator (src/shared/models/SignUpRequest.js) is not part of the sources: the handler
  takes it as a parameter.
\<close>

record validation =
  v_error :: bool
  v_message :: string

text \<open>
  \<^verbatim>\<open>CreateUser(req, res, next)\<close>. The session is bound only when no calling user was
  resolved (\<^verbatim>\<open>if (!callingUser)\<close>); \<^verbatim>\<open>maxAge\<close> is assigned only under \<^verbatim>\<open>rememberMe\<close>.
\<close>

definition CreateUser ::
  "session_config \<Rightarrow> (signup_body \<Rightarrow> validation) \<Rightarrow> signup_body \<Rightarrow> ctx \<Rightarrow> outcome \<times> ctx" where
  "CreateUser cfg validateRequest body c =
     (let v = validateRequest body in
      if v_error v then (Sent \<lparr>res_status = 400, res_body = Message (v_message v)\<rparr>, c)
      else
        (case LoadLoggedInUser c of
           (Inl err, c1) \<Rightarrow> (Next err, c1)
         | (Inr callingUser, c1) \<Rightarrow>
             (case Create (db c1) (b_email body) (b_firstName body) (b_lastName body)
                     (b_password body) of
                (None, d) \<Rightarrow>
                  (Sent \<lparr>res_status = 409, res_body = Message ''user already exists''\<rparr>,
                   c1\<lparr>db := d\<rparr>)
              | (Some userObject, d) \<Rightarrow>
                  (let c2 = c1\<lparr>db := d\<rparr>;
                       created = Sent \<lparr>res_status = 201, res_body = UserJson userObject\<rparr>
                   in case callingUser of
                        Some caller \<Rightarrow> (created, c2)
                      | None \<Rightarrow>
                          (case req_session c2 of
                             None \<Rightarrow>
                               (Next (TypeError ''Cannot set properties of undefined (setting 'user_id')''), c2)
                           | Some s \<Rightarrow>
                               (let s1 = s\<lparr>user_id := Some (uo_id userObject)\<rparr>;
                                    s2 = (if b_rememberMe body
                                          then s1\<lparr>cookie := (cookie s1)
                                                 \<lparr>maxAge := Some (sc_maxAgeDays cfg * 24 * 60 * 60 * 1000)\<rparr>\<rparr>
                                          else s1)
                                in (created, c2\<lparr>req_session := Some s2\<rparr>)))))))"

section \<open>parseInt\<close>

text \<open>
  \<^verbatim>\<open>parseInt(string)\<close> of ECMAScript, called with no radix: leading white space is
  dropped, then an optional sign, then the prefix \<^verbatim>\<open>0x\<close>/\<^verbatim>\<open>0X\<close> selects radix 16
  (radix 10 otherwise); the longest run of digits of that radix is read, and \<^verbatim>\<open>NaN\<close>
  is the result when that run is empty. A path parameter is a string of 8-bit
  characters here, so the white space recognised is the ASCII white space and the
  no-break space.
\<close>

definition is_white_space :: "char \<Rightarrow> bool" where
  "is_white_space c = (of_char c \<in> set [9, 10, 11, 12, 13, 32, 160 :: nat])"

definition digit_of :: "char \<Rightarrow> nat option" where
  "digit_of c =
     (let n = (of_char c :: nat) in
      if 48 \<le> n \<and> n \<le> 57 then Some (n - 48)
      else if 97 \<le> n \<and> n \<le> 122 then Some (n - 87)
      else if 65 \<le> n \<and> n \<le> 90 then Some (n - 55)
      else None)"

definition is_radix_digit :: "nat \<Rightarrow> char \<Rightarrow> bool" where
  "is_radix_digit R c = (case digit_of c of Some v \<Rightarrow> v < R | None \<Rightarrow> False)"

fun radix_value :: "nat \<Rightarrow> nat \<Rightarrow> string \<Rightarrow> nat" where
  "radix_value R acc [] = acc"
| "radix_value R acc (c # cs) =
     radix_value R (acc * R + (case digit_of c of Some v \<Rightarrow> v | None \<Rightarrow> 0)) cs"

text \<open>
  The Number nearest to an integer of the given sign and magnitude: the integer itself
  when it has at most 53 significant bits, otherwise the magnitude rounded to 53 bits,
  ties to even, and an infinity from \<open>2 ^ 1024\<close> on.
\<close>

definition to_Number :: "bool \<Rightarrow> nat \<Rightarrow> js_number" where
  "to_Number negative m =
     (let e = bitlen (int m) - 53 in
      if e \<le> 0 then Num (if negative then - int m else int m)
      else
        (let p = 2 ^ nat e;
             q = m div p;
             r = m mod p;
             half = p div 2;
             q' = (if half < r \<or> (r = half \<and> odd q) then q + 1 else q);
             v = q' * p
         in if 2 ^ 1024 \<le> v then (if negative then NegInfinity else PosInfinity)
            else Num (if negative then - int v else int v)))"

definition parseInt :: "string \<Rightarrow> js_number" where
  "parseInt input =
     (let S = dropWhile is_white_space input;
          negative = (case S of c # rest \<Rightarrow> c = CHR ''-'' | [] \<Rightarrow> False);
          S1 = (case S of
                  c # rest \<Rightarrow> if c = CHR ''+'' \<or> c = CHR ''-'' then rest else S
                | [] \<Rightarrow> S);
          hex = (take 2 S1 = ''0x'' \<or> take 2 S1 = ''0X'');
          R = (if hex then 16 else 10);
          S2 = (if hex then drop 2 S1 else S1);
          Z = takeWhile (is_radix_digit R) S2
      in if Z = [] then NaN else to_Number negative (radix_value R 0 Z))"

section \<open>GET /user/:id and DELETE /user/:id (routes)\<close>

text \<open>
  \<^verbatim>\<open>GetUserById(req, res, next)\<close> and \<^verbatim>\<open>DeleteUserById(req, res, next)\<close>, on the path
  parameter \<^verbatim>\<open>req.params.id\<close>. \<^verbatim>\<open>Validation.ValidateNumber\<close> (src/shared/Validation.js)
  is not part of the sources: the handlers take it as the parameter \<open>validate\<close>. It
  returns an error message, and the handler tests that message for truthiness; the empty
  string stands for every falsy result.
\<close>

definition GetUserById :: "(js_number \<Rightarrow> string) \<Rightarrow> string \<Rightarrow> ctx \<Rightarrow> outcome \<times> ctx" where
  "GetUserById validate param c =
     (case LoadLoggedInUser c of
        (Inl err, c1) \<Rightarrow> (Next err, c1)
      | (Inr None, c1) \<Rightarrow>
          (Sent \<lparr>res_status = 401, res_body = Message ''logged in user required''\<rparr>, c1)
      | (Inr (Some callingUser), c1) \<Rightarrow>
          (let id = parseInt param;
               errmsg = validate id
           in if errmsg \<noteq> [] then (Sent \<lparr>res_status = 400, res_body = Message errmsg\<rparr>, c1)
              else
                (case Load (db c1) id of
                   None \<Rightarrow> (Sent \<lparr>res_status = 404, res_body = StatusText\<rparr>, c1)
                 | Some user \<Rightarrow> (Sent \<lparr>res_status = 200, res_body = UserJson user\<rparr>, c1))))"

definition DeleteUserById :: "(js_number \<Rightarrow> string) \<Rightarrow> string \<Rightarrow> ctx \<Rightarrow> outcome \<times> ctx" where
  "DeleteUserById validate param c =
     (case LoadLoggedInUser c of
        (Inl err, c1) \<Rightarrow> (Next err, c1)
      | (Inr None, c1) \<Rightarrow>
          (Sent \<lparr>res_status = 401, res_body = Message ''logged in user required''\<rparr>, c1)
      | (Inr (Some callingUser), c1) \<Rightarrow>
          (let id = parseInt param;
               errmsg = validate id
           in if errmsg \<noteq> [] then (Sent \<lparr>res_status = 400, res_body = Message errmsg\<rparr>, c1)
              else
                (case Delete (db c1) id of
                   (None, d) \<Rightarrow> (Sent \<lparr>res_status = 404, res_body = StatusText\<rparr>, c1\<lparr>db := d\<rparr>)
                 | (Some user, d) \<Rightarrow>
                     (Sent \<lparr>res_status = 200, res_body = UserJson user\<rparr>, c1\<lparr>db := d\<rparr>))))"

section \<open>The session middleware\<close>

text \<open>
  The middleware that \<^verbatim>\<open>session(this.sessionConfig)\<close> returns is the express-session
  package, of which the sources hold no file; its steps are modelled from the spec,
  section 4.2: "On each inbound request: reads the session cookie if present,
  SessionStore.Get, if absent or expired, creates a new empty session and a new
  identifier, attaches session object to request-scoped context; on response completion,
  if the session was mutated (or resave is set), persists it back via SessionStore.Set".
\<close>

text \<open>
  Modelled from the spec: the session generator of the middleware is missing. "a new
  empty session and a new identifier", on the cookie policy of the configuration.
\<close>

definition new_session :: "session_config \<Rightarrow> string \<Rightarrow> session" where
  "new_session cfg sid = \<lparr>session_id = sid, user_id = None, cookie = sc_cookie cfg\<rparr>"

text \<open>
  Modelled from the spec: the middleware's load step is missing. \<open>ck\<close> is the session
  cookie of the request, \<open>fresh\<close> the identifier a new session would get; a stored
  session is attached under the identifier of the cookie. Expiry needs a clock and is
  left out.
\<close>

definition attach_session :: "session_config \<Rightarrow> string \<Rightarrow> string option \<Rightarrow> ctx \<Rightarrow> ctx" where
  "attach_session cfg fresh ck c =
     (let s = (case ck of
                 None \<Rightarrow> new_session cfg fresh
               | Some sid \<Rightarrow>
                   (case store c sid of
                      None \<Rightarrow> new_session cfg fresh
                    | Some stored \<Rightarrow> stored\<lparr>session_id := sid\<rparr>))
      in c\<lparr>req_session := Some s, res_clearCookie := False\<rparr>)"

text \<open>
  Modelled from the spec: the middleware's save step is missing. \<open>attached\<close> is the
  session as it was attached; a request whose session was destroyed has nothing to
  persist.
\<close>

definition save_session :: "session_config \<Rightarrow> session option \<Rightarrow> ctx \<Rightarrow> ctx" where
  "save_session cfg attached c =
     (case req_session c of
        None \<Rightarrow> c
      | Some s \<Rightarrow>
          if Some s \<noteq> attached \<or> sc_resave cfg
          then c\<lparr>store := (store c)(session_id s \<mapsto> s)\<rparr>
          else c)"

text \<open>
  Modelled from the spec: one request through the middleware and a route handler, in
  the order of section 4.2.
\<close>

definition serve ::
  "session_config \<Rightarrow> string \<Rightarrow> string option \<Rightarrow> (ctx \<Rightarrow> outcome \<times> ctx) \<Rightarrow> ctx \<Rightarrow> outcome \<times> ctx" where
  "serve cfg fresh ck handler c =
     (let c0 = attach_session cfg fresh ck c in
      case handler c0 of
        (out, c1) \<Rightarrow> (out, save_session cfg (req_session c0) c1))"

section \<open>SessionManager (middleware/SessionManager.js)\<close>

record memory_store_config =
  checkPeriod :: int
  noDisposeOnSet :: bool

record redis_config =
  redis_host :: string
  redis_port :: int

text \<open>\<^verbatim>\<open>Config.server.sessionStore\<close> and \<^verbatim>\<open>Config.server\<close>.\<close>

record store_config =
  store_type :: string
  memoryStoreConfig :: memory_store_config
  redisConfig :: redis_config

record config =
  server_session :: session_config
  server_sessionStore :: store_config

text \<open>
  A constructed store: a memory store (with whether its reaping interval was started) or
  a redis store on its client's connection options.
\<close>

datatype session_store = MemoryStore memory_store_config bool | RedisStore redis_config

text \<open>
  The fields of \<^verbatim>\<open>this\<close>. \<open>sm_sessionConfig_store\<close> is \<^verbatim>\<open>this.sessionConfig['store']\<close>,
  \<open>sm_middleware\<close> the store the middleware was created on (\<open>None\<close>: no middleware yet).
\<close>

record session_manager =
  sm_sessionConfig :: session_config
  sm_sessionConfig_store :: "session_store option"
  sm_storeConfig :: "store_config option"
  sm_store :: "session_store option"
  sm_redisClient :: "redis_config option"
  sm_middleware :: "session_store option option"

text \<open>The method \<^verbatim>\<open>_createStore()\<close>.\<close>

definition createStore :: "config \<Rightarrow> session_manager \<Rightarrow> session_manager" where
  "createStore cfg this =
     (let storeCfg = server_sessionStore cfg;
          this1 = this\<lparr>sm_storeConfig := Some storeCfg\<rparr>
      in if store_type storeCfg = ''memorystore''
         then this1\<lparr>sm_store := Some (MemoryStore (memoryStoreConfig storeCfg) True)\<rparr>
         else if store_type storeCfg = ''redis''
         then this1\<lparr>sm_redisClient := Some (redisConfig storeCfg),
                     sm_store := Some (RedisStore (redisConfig storeCfg))\<rparr>
         else this1)"

text \<open>
  The method \<^verbatim>\<open>_logConfig()\<close> only logs; its last line reads
  \<^verbatim>\<open>this.storeConfig.checkPeriod\<close>, a TypeError when \<^verbatim>\<open>this.storeConfig\<close> is undefined.
\<close>

definition logConfig :: "session_manager \<Rightarrow> js_error + session_manager" where
  "logConfig this =
     (case sm_storeConfig this of
        None \<Rightarrow> Inl (TypeError ''Cannot read properties of undefined (reading 'checkPeriod')'')
      | Some storeCfg \<Rightarrow> Inr this)"

text \<open>
  How a call site names what it calls: a free identifier \<^verbatim>\<open>f()\<close>, resolved in the
  scopes around the call, or a method of the instance, \<^verbatim>\<open>this.f()\<close>. The constructor
  has no parameters and no local bindings, so a free identifier is looked up among the
  module's own bindings (the six imports, \<^verbatim>\<open>log\<close>, \<^verbatim>\<open>MemoryStore\<close> and the class);
  the names of a class's methods are not bindings of any scope. An identifier that
  resolves nowhere raises a ReferenceError (a module is strict code).
\<close>

datatype callee = Free string | ThisMethod string

definition module_scope :: "string list" where
  "module_scope = [''session'', ''mstore'', ''Config'', ''GetModuleLogger'', ''redis'',
     ''connectRedis'', ''log'', ''MemoryStore'', ''SessionManager'']"

definition invoke :: "callee \<Rightarrow> config \<Rightarrow> session_manager \<Rightarrow> js_error + session_manager" where
  "invoke f cfg this =
     (case f of
        Free n \<Rightarrow>
          if n \<in> set module_scope then Inr this
          else Inl (ReferenceError (n @ '' is not defined''))
      | ThisMethod n \<Rightarrow>
          if n = ''_createStore'' then Inr (createStore cfg this)
          else if n = ''_logConfig'' then logConfig this
          else Inl (TypeError (''this.'' @ n @ '' is not a function'')))"

text \<open>
  \<^verbatim>\<open>constructor()\<close>: sets \<^verbatim>\<open>this.sessionConfig\<close>, calls \<^verbatim>\<open>_createStore()\<close> as a free
  identifier, then copies \<^verbatim>\<open>this.store\<close> into the session options, creates the
  middleware and calls \<^verbatim>\<open>this._logConfig()\<close>.
\<close>

definition SessionManager_constructor :: "config \<Rightarrow> js_error + session_manager" where
  "SessionManager_constructor cfg =
     (let this0 = \<lparr>sm_sessionConfig = server_session cfg, sm_sessionConfig_store = None,
                    sm_storeConfig = None, sm_store = None, sm_redisClient = None,
                    sm_middleware = None\<rparr>
      in case invoke (Free ''_createStore'') cfg this0 of
           Inl err \<Rightarrow> Inl err
         | Inr this1 \<Rightarrow>
             (let this2 = this1\<lparr>sm_sessionConfig_store := sm_store this1\<rparr>;
                  this3 = this2\<lparr>sm_middleware := Some (sm_sessionConfig_store this2)\<rparr>
              in invoke (ThisMethod ''_logConfig'') cfg this3))"

section \<open>A validator and example requests\<close>

text \<open>
  Modelled from the spec: \<^verbatim>\<open>Validation.ValidateNumber\<close> (src/shared/Validation.js) is not
  part of the sources. Spec, section 7: "ValidationError: malformed input identifiers;
  local, immediate 400-equivalent response". A value that is not a number gets an error
  message (the spec does not give its wording), every number passes.
\<close>

definition ValidateNumber :: "js_number \<Rightarrow> string" where
  "ValidateNumber n = (if n = NaN then ''not a number'' else [])"

text \<open>The inputs the example runs below are evaluated on.\<close>

definition alice :: user_object where
  "alice = \<lparr>uo_id = 1, uo_email = ''a@x.com'', uo_firstName = ''A'', uo_lastName = None\<rparr>"

definition zed :: user_object where
  "zed = \<lparr>uo_id = 0, uo_email = ''z@x.com'', uo_firstName = ''Z'', uo_lastName = None\<rparr>"

definition alice_signup :: "bool \<Rightarrow> signup_body" where
  "alice_signup remember = \<lparr>b_firstName = ''A'', b_lastName = None, b_email = ''a@x.com'',
     b_password = ''p'', b_rememberMe = remember\<rparr>"

definition bob_signup :: signup_body where
  "bob_signup = \<lparr>b_firstName = ''B'', b_lastName = Some ''Bee'', b_email = ''b@x.com'',
     b_password = ''q'', b_rememberMe = True\<rparr>"

definition accept_request :: "signup_body \<Rightarrow> validation" where
  "accept_request body = \<lparr>v_error = False, v_message = []\<rparr>"

definition browser_cookie :: session_cookie where
  "browser_cookie = \<lparr>maxAge = None, secure = False, httpOnly = True, sameSite = ''lax''\<rparr>"

definition hour_cookie :: session_cookie where
  "hour_cookie = \<lparr>maxAge = Some 3600000, secure = False, httpOnly = True, sameSite = ''lax''\<rparr>"

definition week_config :: "session_cookie \<Rightarrow> session_config" where
  "week_config policy = \<lparr>sc_name = ''sid'', sc_cookie = policy, sc_resave = False,
     sc_saveUninitialized = False, sc_maxAgeDays = 7\<rparr>"

definition config_with_store :: "string \<Rightarrow> config" where
  "config_with_store t =
     \<lparr>server_session = week_config browser_cookie,
      server_sessionStore =
        \<lparr>store_type = t,
         memoryStoreConfig = \<lparr>checkPeriod = 86400000, noDisposeOnSet = True\<rparr>,
         redisConfig = \<lparr>redis_host = ''localhost'', redis_port = 6379\<rparr>\<rparr>\<rparr>"

text \<open>
  A request whose session \<^verbatim>\<open>s1\<close> is in the store, bound to \<open>uid\<close>, on the given rows.
\<close>

definition session_s1 :: "int option \<Rightarrow> session_cookie \<Rightarrow> session" where
  "session_s1 uid policy = \<lparr>session_id = ''s1'', user_id = uid, cookie = policy\<rparr>"

definition ctx_with :: "user_object list \<Rightarrow> int \<Rightarrow> int option \<Rightarrow> session_cookie \<Rightarrow> ctx" where
  "ctx_with rows next uid policy =
     \<lparr>db = \<lparr>db_rows = rows, db_next_id = next\<rparr>,
      store = [''s1'' \<mapsto> session_s1 uid policy],
      req_session = Some (session_s1 uid policy), res_clearCookie = False\<rparr>"

section \<open>Properties of the resolver\<close>

lemma DeleteSession_effect:
  assumes "req_session c = Some s"
  shows "store (DeleteSession c) (session_id s) = None \<and> req_session (DeleteSession c) = None
     \<and> res_clearCookie (DeleteSession c) \<and> db (DeleteSession c) = db c"
  using assms by (simp add: DeleteSession_def)

text \<open>
  C1. A session bound to a \<open>user_id\<close> that the user collaborator does not find is
  destroyed by the resolver: the session is removed from the store, detached from the
  request, and the response clears the cookie. The resolver then throws: it returns
  neither the \<^verbatim>\<open>null\<close> of an anonymous visitor nor a user.
\<close>

theorem LoadLoggedInUser_stale:
  assumes "req_session c = Some s" and "user_id s = Some uid"
    and "Load (db c) (Num uid) = None"
  shows "LoadLoggedInUser c =
           (Inl (Error ''stale user session deleted, please try again''), DeleteSession c)
       \<and> (\<forall>r. fst (LoadLoggedInUser c) \<noteq> Inr r)
       \<and> store (DeleteSession c) (session_id s) = None
       \<and> req_session (DeleteSession c) = None
       \<and> res_clearCookie (DeleteSession c)"
proof -
  have call: "LoadLoggedInUser c =
      (Inl (Error ''stale user session deleted, please try again''), DeleteSession c)"
    using assms by (simp add: LoadLoggedInUser_def)
  moreover have "\<forall>r. fst (LoadLoggedInUser c) \<noteq> Inr r"
    by (simp add: call)
  ultimately show ?thesis
    using DeleteSession_effect [OF assms(1)] by simp
qed

text \<open>
  The session \<^verbatim>\<open>s1\<close> claims user 42, the only row is user 1: the resolver throws, and
  what is left has an empty store, no session on the request and a cleared cookie.
\<close>

theorem LoadLoggedInUser_stale_witness:
  "LoadLoggedInUser (ctx_with [alice] 2 (Some 42) browser_cookie) =
     (Inl (Error ''stale user session deleted, please try again''),
      \<lparr>db = \<lparr>db_rows = [alice], db_next_id = 2\<rparr>, store = Map.empty,
       req_session = None, res_clearCookie = True\<rparr>)"
proof -
  let ?c = "ctx_with [alice] 2 (Some 42) browser_cookie"
  have "req_session ?c = Some (session_s1 (Some 42) browser_cookie)"
    by (simp add: ctx_with_def)
  moreover have "user_id (session_s1 (Some 42) browser_cookie) = Some 42"
    by (simp add: session_s1_def)
  moreover have "Load (db ?c) (Num 42) = None"
    by (simp add: ctx_with_def Load_def alice_def)
  ultimately have "LoadLoggedInUser ?c =
      (Inl (Error ''stale user session deleted, please try again''), DeleteSession ?c)"
    using LoadLoggedInUser_stale [of ?c "session_s1 (Some 42) browser_cookie" 42]
    by simp
  then show ?thesis
    by (simp add: DeleteSession_def ctx_with_def session_s1_def)
qed

text \<open>
  C2. A session without a bound \<open>user_id\<close> resolves to no user: the resolver returns
  \<^verbatim>\<open>null\<close>, raises nothing, and leaves the session, the store and the response as they
  were.
\<close>

theorem LoadLoggedInUser_anonymous:
  assumes "req_session c = Some s" and "user_id s = None"
  shows "LoadLoggedInUser c = (Inr None, c)"
  using assms by (simp add: LoadLoggedInUser_def)

theorem LoadLoggedInUser_anonymous_witness:
  "LoadLoggedInUser (ctx_with [alice] 2 None browser_cookie) =
     (Inr None, ctx_with [alice] 2 None browser_cookie)"
proof -
  have "req_session (ctx_with [alice] 2 None browser_cookie) = Some (session_s1 None browser_cookie)"
    by (simp add: ctx_with_def)
  moreover have "user_id (session_s1 None browser_cookie) = None"
    by (simp add: session_s1_def)
  ultimately show ?thesis
    by (rule LoadLoggedInUser_anonymous)
qed

text \<open>
  C8. GET /user answers 200 with the user's identity when the resolver returns a user,
  and 202 with a message object when the resolver returns no user.
\<close>

theorem GetUser_status:
  "(LoadLoggedInUser c = (Inr (Some u), c1) \<longrightarrow>
      GetUser c = (Sent \<lparr>res_status = 200, res_body = UserJson u\<rparr>, c1))
   \<and> (LoadLoggedInUser c = (Inr None, c1) \<longrightarrow>
      GetUser c = (Sent \<lparr>res_status = 202, res_body = Message ''user not logged in''\<rparr>, c1))"
  by (simp add: GetUser_def)

theorem GetUser_status_witness:
  "GetUser (ctx_with [alice] 2 (Some 1) browser_cookie) =
     (Sent \<lparr>res_status = 200, res_body = UserJson alice\<rparr>,
      ctx_with [alice] 2 (Some 1) browser_cookie)
   \<and> GetUser (ctx_with [alice] 2 None browser_cookie) =
     (Sent \<lparr>res_status = 202, res_body = Message ''user not logged in''\<rparr>,
      ctx_with [alice] 2 None browser_cookie)"
proof -
  let ?in = "ctx_with [alice] 2 (Some 1) browser_cookie"
  let ?out = "ctx_with [alice] 2 None browser_cookie"
  have "LoadLoggedInUser ?in = (Inr (Some alice), ?in)"
    by (simp add: LoadLoggedInUser_def ctx_with_def session_s1_def Load_def alice_def)
  moreover have "LoadLoggedInUser ?out = (Inr None, ?out)"
    by (simp add: LoadLoggedInUser_def ctx_with_def session_s1_def)
  ultimately show ?thesis
    using GetUser_status [of ?in alice ?in] GetUser_status [of ?out alice ?out]
    by simp
qed

section \<open>A stale session across two requests\<close>

lemma attach_after_destroy:
  assumes "store c sid = None"
  shows "req_session (attach_session cfg fresh (Some sid) c) = Some (new_session cfg fresh)"
    and "req_session (attach_session cfg fresh None c) = Some (new_session cfg fresh)"
  using assms by (simp_all add: attach_session_def)

lemma GetUser_new_session:
  assumes "req_session c = Some (new_session cfg fresh)"
  shows "GetUser c = (Sent \<lparr>res_status = 202, res_body = Message ''user not logged in''\<rparr>, c)"
  using assms by (simp add: GetUser_def LoadLoggedInUser_def new_session_def)

lemma serve_fst:
  "fst (serve cfg fresh ck handler c) = fst (handler (attach_session cfg fresh ck c))"
  by (simp add: serve_def Let_def split: prod.splits)

lemma serve_snd:
  "snd (serve cfg fresh ck handler c) =
     save_session cfg (req_session (attach_session cfg fresh ck c))
       (snd (handler (attach_session cfg fresh ck c)))"
  by (simp add: serve_def Let_def split: prod.splits)

text \<open>
  C3. A request GET /user whose cookie names a stale session (bound to an id the user
  collaborator does not find) ends in the resolver's error, once, with the session
  removed from the store and the cookie cleared. On the next request, whether it still
  sends the old cookie or none, the resolver returns no user and GET /user answers 202.
\<close>

theorem stale_session_then_anonymous:
  assumes "store c sid = Some s" and "user_id s = Some uid"
    and "Load (db c) (Num uid) = None"
  shows "fst (serve cfg fresh (Some sid) GetUser c) =
           Next (Error ''stale user session deleted, please try again'')
       \<and> store (snd (serve cfg fresh (Some sid) GetUser c)) sid = None
       \<and> res_clearCookie (snd (serve cfg fresh (Some sid) GetUser c))
       \<and> fst (LoadLoggedInUser (attach_session cfg fresh' (Some sid)
              (snd (serve cfg fresh (Some sid) GetUser c)))) = Inr None
       \<and> fst (serve cfg fresh' (Some sid) GetUser (snd (serve cfg fresh (Some sid) GetUser c))) =
           Sent \<lparr>res_status = 202, res_body = Message ''user not logged in''\<rparr>
       \<and> fst (serve cfg fresh' None GetUser (snd (serve cfg fresh (Some sid) GetUser c))) =
           Sent \<lparr>res_status = 202, res_body = Message ''user not logged in''\<rparr>"
proof -
  let ?c0 = "attach_session cfg fresh (Some sid) c"
  let ?c1 = "snd (serve cfg fresh (Some sid) GetUser c)"
  have att: "req_session ?c0 = Some (s\<lparr>session_id := sid\<rparr>)" and db0: "db ?c0 = db c"
    using assms(1) by (simp_all add: attach_session_def)
  have stale: "LoadLoggedInUser ?c0 =
      (Inl (Error ''stale user session deleted, please try again''), DeleteSession ?c0)"
    using att db0 assms(2,3) by (simp add: LoadLoggedInUser_def)
  have first: "GetUser ?c0 =
      (Next (Error ''stale user session deleted, please try again''), DeleteSession ?c0)"
    by (simp add: GetUser_def stale)
  have c1: "?c1 = DeleteSession ?c0"
    using att by (simp add: serve_snd first save_session_def DeleteSession_def)
  have gone: "store ?c1 sid = None" and cleared: "res_clearCookie ?c1"
    using att by (simp_all add: c1 DeleteSession_def)
  have fresh1: "req_session (attach_session cfg fresh' (Some sid) ?c1) = Some (new_session cfg fresh')"
    and fresh2: "req_session (attach_session cfg fresh' None ?c1) = Some (new_session cfg fresh')"
    using attach_after_destroy [OF gone] by simp_all
  have "fst (LoadLoggedInUser (attach_session cfg fresh' (Some sid) ?c1)) = Inr None"
    using fresh1 by (simp add: LoadLoggedInUser_def new_session_def)
  moreover have "fst (serve cfg fresh (Some sid) GetUser c) =
      Next (Error ''stale user session deleted, please try again'')"
    by (simp add: serve_fst first)
  moreover have "fst (serve cfg fresh' (Some sid) GetUser ?c1) =
      Sent \<lparr>res_status = 202, res_body = Message ''user not logged in''\<rparr>"
    by (simp add: serve_fst GetUser_new_session [OF fresh1])
  moreover have "fst (serve cfg fresh' None GetUser ?c1) =
      Sent \<lparr>res_status = 202, res_body = Message ''user not logged in''\<rparr>"
    by (simp add: serve_fst GetUser_new_session [OF fresh2])
  ultimately show ?thesis
    using gone cleared by simp
qed

text \<open>
  The spec's scenario: the stored session \<^verbatim>\<open>s1\<close> claims user 42, the collaborator has
  only user 1.
\<close>

theorem stale_session_then_anonymous_witness:
  "fst (serve (week_config browser_cookie) ''s2'' (Some ''s1'') GetUser
          (ctx_with [alice] 2 (Some 42) browser_cookie)) =
     Next (Error ''stale user session deleted, please try again'')
   \<and> fst (serve (week_config browser_cookie) ''s3'' (Some ''s1'') GetUser
          (snd (serve (week_config browser_cookie) ''s2'' (Some ''s1'') GetUser
             (ctx_with [alice] 2 (Some 42) browser_cookie)))) =
     Sent \<lparr>res_status = 202, res_body = Message ''user not logged in''\<rparr>"
proof -
  let ?c = "ctx_with [alice] 2 (Some 42) browser_cookie"
  have "store ?c ''s1'' = Some (session_s1 (Some 42) browser_cookie)"
    by (simp add: ctx_with_def)
  moreover have "user_id (session_s1 (Some 42) browser_cookie) = Some 42"
    by (simp add: session_s1_def)
  moreover have "Load (db ?c) (Num 42) = None"
    by (simp add: ctx_with_def Load_def alice_def)
  ultimately show ?thesis
    using stale_session_then_anonymous
      [of ?c "''s1''" "session_s1 (Some 42) browser_cookie" 42
          "week_config browser_cookie" "''s2''" "''s3''"]
    by simp
qed

section \<open>Properties of POST /users\<close>

lemma LoadLoggedInUser_returns_same_ctx:
  assumes "LoadLoggedInUser c = (Inr r, c1)"
  shows "c1 = c"
  using assms by (auto simp: LoadLoggedInUser_def split: option.splits)

lemma find_append_last:
  "P x \<Longrightarrow> \<exists>y. find P (xs @ [x]) = Some y"
  by (induction xs) auto

text \<open>
  C4 (as amended). After a successful self-signup (status 201 on a session without a
  bound user), the session is still attached and: without \<^verbatim>\<open>rememberMe\<close> its cookie is
  exactly the cookie it had, so it has no \<^verbatim>\<open>maxAge\<close> if it had none; with
  \<^verbatim>\<open>rememberMe\<close> and a remember-me duration of 7 days its \<^verbatim>\<open>maxAge\<close> is
  \<open>7 * 24 * 60 * 60 * 1000\<close> milliseconds.
\<close>

theorem CreateUser_signup_cookie:
  assumes "CreateUser cfg validateRequest body c = (Sent r, c')" and "res_status r = 201"
    and "req_session c = Some s" and "user_id s = None"
  shows "\<exists>s'. req_session c' = Some s'
      \<and> (\<not> b_rememberMe body \<longrightarrow> cookie s' = cookie s)
      \<and> (\<not> b_rememberMe body \<and> maxAge (cookie s) = None \<longrightarrow> maxAge (cookie s') = None)
      \<and> (b_rememberMe body \<and> sc_maxAgeDays cfg = 7 \<longrightarrow>
           maxAge (cookie s') = Some (7 * 24 * 60 * 60 * 1000))"
proof -
  have anon: "LoadLoggedInUser c = (Inr None, c)"
    using assms(3,4) by (simp add: LoadLoggedInUser_def)
  show ?thesis
    using assms
    by (auto simp: CreateUser_def Let_def anon split: if_splits prod.splits option.splits)
qed

text \<open>
  Two signups on a browser-session cookie, the remember-me duration being 7 days: with
  \<^verbatim>\<open>rememberMe\<close> the cookie gets 604800000 ms, without it the cookie keeps no
  \<^verbatim>\<open>maxAge\<close>.
\<close>

theorem CreateUser_signup_cookie_witness:
  "(\<exists>s'. req_session (snd (CreateUser (week_config browser_cookie) accept_request
             (alice_signup True) (ctx_with [] 1 None browser_cookie))) = Some s'
         \<and> maxAge (cookie s') = Some 604800000)
   \<and> (\<exists>s'. req_session (snd (CreateUser (week_config browser_cookie) accept_request
             (alice_signup False) (ctx_with [] 1 None browser_cookie))) = Some s'
         \<and> maxAge (cookie s') = None)"
proof -
  let ?cfg = "week_config browser_cookie"
  let ?c = "ctx_with [] 1 None browser_cookie"
  let ?s = "session_s1 None browser_cookie"
  let ?r = "\<lparr>res_status = 201, res_body = UserJson alice\<rparr>"
  have run: "CreateUser ?cfg accept_request (alice_signup remember) ?c =
      (Sent ?r, snd (CreateUser ?cfg accept_request (alice_signup remember) ?c))" for remember
    by (simp add: CreateUser_def Let_def LoadLoggedInUser_def Create_def accept_request_def
        alice_signup_def alice_def ctx_with_def session_s1_def)
  have sess: "req_session ?c = Some ?s" "user_id ?s = None" "maxAge (cookie ?s) = None"
    by (simp_all add: ctx_with_def session_s1_def browser_cookie_def)
  have days: "sc_maxAgeDays ?cfg = 7"
    by (simp add: week_config_def)
  have remembered: "\<exists>s'. req_session (snd (CreateUser ?cfg accept_request
      (alice_signup True) ?c)) = Some s' \<and> maxAge (cookie s') = Some 604800000"
    using CreateUser_signup_cookie [OF run [of True] _ sess(1,2)] days
    by (auto simp: alice_signup_def)
  have forgotten: "\<exists>s'. req_session (snd (CreateUser ?cfg accept_request
      (alice_signup False) ?c)) = Some s' \<and> maxAge (cookie s') = None"
    using CreateUser_signup_cookie [OF run [of False] _ sess(1,2)] sess(3)
    by (auto simp: alice_signup_def)
  show ?thesis
    using remembered forgotten by (rule conjI)
qed

text \<open>
  The claim as stated fails where the cookie policy itself configures a \<^verbatim>\<open>maxAge\<close>:
  on a session created under a one-hour policy, a signup without \<^verbatim>\<open>rememberMe\<close>
  succeeds and the session's cookie still has its \<^verbatim>\<open>maxAge\<close> of 3600000 ms.
\<close>

theorem signup_without_rememberMe_keeps_maxAge:
  "fst (CreateUser (week_config hour_cookie) accept_request (alice_signup False)
          (ctx_with [] 1 None hour_cookie)) =
     Sent \<lparr>res_status = 201, res_body = UserJson alice\<rparr>
   \<and> req_session (snd (CreateUser (week_config hour_cookie) accept_request (alice_signup False)
          (ctx_with [] 1 None hour_cookie))) = Some (session_s1 (Some 1) hour_cookie)
   \<and> maxAge (cookie (session_s1 (Some 1) hour_cookie)) = Some 3600000
   \<and> maxAge (cookie (session_s1 (Some 1) hour_cookie)) \<noteq> None"
  by (simp add: CreateUser_def Let_def LoadLoggedInUser_def Create_def accept_request_def
      alice_signup_def alice_def ctx_with_def session_s1_def hour_cookie_def)

text \<open>
  C5. When the resolver finds a logged-in caller, POST /users leaves the request's
  session (its \<open>user_id\<close> and its cookie, \<^verbatim>\<open>maxAge\<close> included), the session store and
  the cookie of the response as they were, whatever the outcome; when the request is
  valid and the collaborator creates the account, the answer is 201 with the new user.
\<close>

theorem CreateUser_by_logged_in_user:
  assumes "LoadLoggedInUser c = (Inr (Some caller), c1)"
  shows "req_session (snd (CreateUser cfg validateRequest body c)) = req_session c
       \<and> store (snd (CreateUser cfg validateRequest body c)) = store c
       \<and> res_clearCookie (snd (CreateUser cfg validateRequest body c)) = res_clearCookie c
       \<and> (\<not> v_error (validateRequest body) \<and>
            fst (Create (db c) (b_email body) (b_firstName body) (b_lastName body) (b_password body))
              = Some u \<longrightarrow>
            fst (CreateUser cfg validateRequest body c) =
              Sent \<lparr>res_status = 201, res_body = UserJson u\<rparr>)"
proof -
  have same: "c1 = c"
    using assms by (rule LoadLoggedInUser_returns_same_ctx)
  show ?thesis
    using assms unfolding same
    by (auto simp: CreateUser_def Let_def split: prod.splits option.splits)
qed

text \<open>
  Alice, logged in on \<^verbatim>\<open>s1\<close>, creates Bob with \<^verbatim>\<open>rememberMe\<close> set: Bob gets id 2,
  and the session is still Alice's, on its browser-session cookie.
\<close>

theorem CreateUser_by_logged_in_user_witness:
  "fst (CreateUser (week_config browser_cookie) accept_request bob_signup
          (ctx_with [alice] 2 (Some 1) browser_cookie)) =
     Sent \<lparr>res_status = 201, res_body = UserJson
       \<lparr>uo_id = 2, uo_email = ''b@x.com'', uo_firstName = ''B'', uo_lastName = Some ''Bee''\<rparr>\<rparr>
   \<and> req_session (snd (CreateUser (week_config browser_cookie) accept_request bob_signup
          (ctx_with [alice] 2 (Some 1) browser_cookie))) =
     Some (session_s1 (Some 1) browser_cookie)"
proof -
  let ?c = "ctx_with [alice] 2 (Some 1) browser_cookie"
  let ?bob = "\<lparr>uo_id = 2, uo_email = ''b@x.com'', uo_firstName = ''B'', uo_lastName = Some ''Bee''\<rparr>"
  have "LoadLoggedInUser ?c = (Inr (Some alice), ?c)"
    by (simp add: LoadLoggedInUser_def ctx_with_def session_s1_def Load_def alice_def)
  moreover have "\<not> v_error (accept_request bob_signup)"
    by (simp add: accept_request_def)
  moreover have "fst (Create (db ?c) (b_email bob_signup) (b_firstName bob_signup)
      (b_lastName bob_signup) (b_password bob_signup)) = Some ?bob"
    by (simp add: Create_def Let_def ctx_with_def bob_signup_def alice_def)
  moreover have "req_session ?c = Some (session_s1 (Some 1) browser_cookie)"
    by (simp add: ctx_with_def)
  ultimately show ?thesis
    using CreateUser_by_logged_in_user
      [of ?c alice ?c "week_config browser_cookie" accept_request bob_signup ?bob]
    by simp
qed

lemma find_append_new:
  assumes "find P xs = None" and "P x"
  shows "find P (xs @ [x]) = Some x"
  using assms by (induction xs) (auto split: if_splits)

lemma CreateUser_duplicate:
  assumes "\<not> v_error (validateRequest body)"
    and "LoadLoggedInUser c = (Inr r, c)"
    and "find (\<lambda>u. uo_email u = b_email body) (db_rows (db c)) \<noteq> None"
  shows "CreateUser cfg validateRequest body c =
           (Sent \<lparr>res_status = 409, res_body = Message ''user already exists''\<rparr>, c)"
proof -
  have conflict: "Create (db c) (b_email body) (b_firstName body) (b_lastName body) (b_password body)
      = (None, db c)"
    using assms(3) by (auto simp: Create_def)
  show ?thesis
    using assms(1) by (simp add: CreateUser_def Let_def assms(2) conflict)
qed

text \<open>
  C6. A valid signup on a session \<open>s\<close> without a bound user, for an email no account
  has: POST /users answers 201 with the new user \<open>new\<close> and leaves exactly the state
  \<open>c'\<close>, in which the account \<open>new\<close> is the last row of the collaborator (and the one
  found for that email), the next id is advanced, and the session is \<open>s\<close> bound to the
  new id. The same signup repeated on \<open>c'\<close> answers 409 and leaves \<open>c'\<close> as it is: the
  session, the store and the accounts are unchanged. The same holds for every request
  whose email already has an account, whether the resolver finds a caller or none: 409,
  and nothing changes.
\<close>

theorem signup_then_repeat:
  assumes "\<not> v_error (validateRequest body)"
    and "req_session c = Some s" and "user_id s = None"
    and "find (\<lambda>u. uo_email u = b_email body) (db_rows (db c)) = None"
    and "new = \<lparr>uo_id = db_next_id (db c), uo_email = b_email body,
                uo_firstName = b_firstName body, uo_lastName = b_lastName body\<rparr>"
    and "c' = c\<lparr>db := (db c)\<lparr>db_rows := db_rows (db c) @ [new],
                              db_next_id := db_next_id (db c) + 1\<rparr>,
                 req_session := Some (s\<lparr>user_id := Some (uo_id new),
                    cookie := (if b_rememberMe body
                               then (cookie s)\<lparr>maxAge := Some (sc_maxAgeDays cfg * 24 * 60 * 60 * 1000)\<rparr>
                               else cookie s)\<rparr>)\<rparr>"
  shows "CreateUser cfg validateRequest body c =
           (Sent \<lparr>res_status = 201, res_body = UserJson new\<rparr>, c')
       \<and> find (\<lambda>u. uo_email u = b_email body) (db_rows (db c')) = Some new
       \<and> CreateUser cfg validateRequest body c' =
           (Sent \<lparr>res_status = 409, res_body = Message ''user already exists''\<rparr>, c')
       \<and> (\<forall>c2 r. LoadLoggedInUser c2 = (Inr r, c2)
             \<and> find (\<lambda>u. uo_email u = b_email body) (db_rows (db c2)) \<noteq> None \<longrightarrow>
             CreateUser cfg validateRequest body c2 =
               (Sent \<lparr>res_status = 409, res_body = Message ''user already exists''\<rparr>, c2))"
proof -
  let ?d = "(db c)\<lparr>db_rows := db_rows (db c) @ [new], db_next_id := db_next_id (db c) + 1\<rparr>"
  have rows': "db_rows (db c') = db_rows (db c) @ [new]"
    and sess': "\<exists>s'. req_session c' = Some s' \<and> user_id s' = Some (uo_id new)"
    by (simp_all add: assms(6))
  have id_new: "uo_id new = db_next_id (db c)" and email_new: "uo_email new = b_email body"
    by (simp_all add: assms(5))
  have anon: "LoadLoggedInUser c = (Inr None, c)"
    using assms(2,3) by (simp add: LoadLoggedInUser_def)
  have created: "Create (db c) (b_email body) (b_firstName body) (b_lastName body) (b_password body)
      = (Some new, ?d)"
    using assms(4) by (simp add: Create_def Let_def assms(5))
  have first: "CreateUser cfg validateRequest body c =
      (Sent \<lparr>res_status = 201, res_body = UserJson new\<rparr>, c')"
    using assms(1,2) by (simp add: CreateUser_def Let_def anon created assms(6))
  have account: "find (\<lambda>u. uo_email u = b_email body) (db_rows (db c')) = Some new"
    using find_append_new [OF assms(4), of new] email_new by (simp add: rows')
  obtain caller where found: "Load (db c') (Num (uo_id new)) = Some caller"
    using find_append_last [of "\<lambda>u. uo_id u = uo_id new" new "db_rows (db c)"]
    by (auto simp: Load_def rows')
  have resolved: "LoadLoggedInUser c' = (Inr (Some caller), c')"
    using found sess' by (auto simp: LoadLoggedInUser_def)
  have second: "CreateUser cfg validateRequest body c' =
      (Sent \<lparr>res_status = 409, res_body = Message ''user already exists''\<rparr>, c')"
    using assms(1) resolved by (rule CreateUser_duplicate) (simp add: account)
  have others: "CreateUser cfg validateRequest body c2 =
      (Sent \<lparr>res_status = 409, res_body = Message ''user already exists''\<rparr>, c2)"
    if "LoadLoggedInUser c2 = (Inr r, c2)"
      and "find (\<lambda>u. uo_email u = b_email body) (db_rows (db c2)) \<noteq> None" for c2 r
    using assms(1) that by (rule CreateUser_duplicate)
  show ?thesis
    using first account second others by blast
qed

text \<open>
  The spec's scenario: the first account, signed up for on the anonymous session
  \<^verbatim>\<open>s1\<close>, and the signup repeated on the session it bound; then the same signup from
  another anonymous visitor.
\<close>

theorem signup_then_repeat_witness:
  "CreateUser (week_config browser_cookie) accept_request (alice_signup False)
      (ctx_with [] 1 None browser_cookie) =
     (Sent \<lparr>res_status = 201, res_body = UserJson alice\<rparr>,
      (ctx_with [] 1 None browser_cookie)
        \<lparr>db := \<lparr>db_rows = [alice], db_next_id = 2\<rparr>,
         req_session := Some (session_s1 (Some 1) browser_cookie)\<rparr>)
   \<and> CreateUser (week_config browser_cookie) accept_request (alice_signup False)
      ((ctx_with [] 1 None browser_cookie)
        \<lparr>db := \<lparr>db_rows = [alice], db_next_id = 2\<rparr>,
         req_session := Some (session_s1 (Some 1) browser_cookie)\<rparr>) =
     (Sent \<lparr>res_status = 409, res_body = Message ''user already exists''\<rparr>,
      (ctx_with [] 1 None browser_cookie)
        \<lparr>db := \<lparr>db_rows = [alice], db_next_id = 2\<rparr>,
         req_session := Some (session_s1 (Some 1) browser_cookie)\<rparr>)
   \<and> CreateUser (week_config browser_cookie) accept_request (alice_signup False)
      (ctx_with [alice] 2 None browser_cookie) =
     (Sent \<lparr>res_status = 409, res_body = Message ''user already exists''\<rparr>,
      ctx_with [alice] 2 None browser_cookie)"
proof -
  let ?cfg = "week_config browser_cookie"
  let ?c = "ctx_with [] 1 None browser_cookie"
  let ?c' = "?c\<lparr>db := \<lparr>db_rows = [alice], db_next_id = 2\<rparr>,
                 req_session := Some (session_s1 (Some 1) browser_cookie)\<rparr>"
  let ?other = "ctx_with [alice] 2 None browser_cookie"
  let ?body = "alice_signup False"
  have valid: "\<not> v_error (accept_request ?body)"
    by (simp add: accept_request_def)
  have sess: "req_session ?c = Some (session_s1 None browser_cookie)"
    "user_id (session_s1 None browser_cookie) = None"
    by (simp_all add: ctx_with_def session_s1_def)
  have unknown: "find (\<lambda>u. uo_email u = b_email ?body) (db_rows (db ?c)) = None"
    by (simp add: ctx_with_def)
  have new: "alice = \<lparr>uo_id = db_next_id (db ?c), uo_email = b_email ?body,
      uo_firstName = b_firstName ?body, uo_lastName = b_lastName ?body\<rparr>"
    by (simp add: ctx_with_def alice_signup_def alice_def)
  have after: "?c' = ?c\<lparr>db := (db ?c)\<lparr>db_rows := db_rows (db ?c) @ [alice],
                                  db_next_id := db_next_id (db ?c) + 1\<rparr>,
        req_session := Some ((session_s1 None browser_cookie)\<lparr>user_id := Some (uo_id alice),
           cookie := (if b_rememberMe ?body
                      then (cookie (session_s1 None browser_cookie))
                             \<lparr>maxAge := Some (sc_maxAgeDays ?cfg * 24 * 60 * 60 * 1000)\<rparr>
                      else cookie (session_s1 None browser_cookie))\<rparr>)\<rparr>"
    by (simp add: ctx_with_def alice_signup_def alice_def session_s1_def)
  have anon: "LoadLoggedInUser ?other = (Inr None, ?other)"
    by (simp add: LoadLoggedInUser_def ctx_with_def session_s1_def)
  have dup: "find (\<lambda>u. uo_email u = b_email ?body) (db_rows (db ?other)) \<noteq> None"
    by (simp add: ctx_with_def alice_signup_def alice_def)
  show ?thesis
    using signup_then_repeat
      [of accept_request ?body ?c "session_s1 None browser_cookie" alice ?c' ?cfg,
       OF valid sess unknown new after]
      anon dup
    by blast
qed

section \<open>Properties of parseInt\<close>

lemma decimal_digit_iff:
  "is_radix_digit 10 ch \<longleftrightarrow> 48 \<le> (of_char ch :: nat) \<and> (of_char ch :: nat) \<le> 57"
  by (auto simp: is_radix_digit_def digit_of_def Let_def)

lemma decimal_digit_plain:
  assumes "is_radix_digit 10 ch"
  shows "\<not> is_white_space ch" and "ch \<noteq> CHR ''+''" and "ch \<noteq> CHR ''-''"
    and "ch \<noteq> CHR ''x''" and "ch \<noteq> CHR ''X''"
  using assms by (auto simp: decimal_digit_iff is_white_space_def)

lemma to_Number_exact:
  assumes "m < 2 ^ 53"
  shows "to_Number False m = Num (int m)"
proof -
  have "bitlen (int m) \<le> 53"
    using assms less_power_nat_iff_bitlen [of m 53] by simp
  then show ?thesis
    by (simp add: to_Number_def)
qed

text \<open>
  A parameter that consists of a run of decimal digits \<open>ds\<close> and a rest that does not go
  on with a digit parses to the value of \<open>ds\<close>, unless it starts with the hexadecimal
  prefix or the value needs more than 53 bits.
\<close>

lemma parseInt_decimal_prefix:
  assumes digits: "ds \<noteq> []" "\<forall>ch\<in>set ds. is_radix_digit 10 ch"
    and stop: "rest = [] \<or> \<not> is_radix_digit 10 (hd rest)"
    and nohex: "\<not> (ds = ''0'' \<and> rest \<noteq> [] \<and> (hd rest = CHR ''x'' \<or> hd rest = CHR ''X''))"
    and small: "radix_value 10 0 ds < 2 ^ 53"
  shows "parseInt (ds @ rest) = Num (int (radix_value 10 0 ds))"
proof -
  obtain d ds' where ds: "ds = d # ds'"
    using digits(1) by (cases ds) auto
  have d: "is_radix_digit 10 d"
    using digits(2) ds by simp
  have trim: "dropWhile is_white_space (ds @ rest) = ds @ rest"
    using decimal_digit_plain(1) [OF d] by (simp add: ds)
  have prefix: "take 2 (ds @ rest) \<noteq> ''0x'' \<and> take 2 (ds @ rest) \<noteq> ''0X''"
  proof (cases ds')
    case Nil
    then show ?thesis
      using nohex ds by (cases rest) auto
  next
    case (Cons e es)
    then have "is_radix_digit 10 e"
      using digits(2) ds by simp
    then show ?thesis
      using decimal_digit_plain(4,5) [of e] by (auto simp: ds Cons)
  qed
  have run: "takeWhile (is_radix_digit 10) (ds @ rest) = ds"
    using digits(2) stop by (auto simp: takeWhile_eq_Nil_iff)
  have sign: "(case ds @ rest of c # cs \<Rightarrow> c = CHR ''-'' | [] \<Rightarrow> False) = False"
    and unsigned: "(case ds @ rest of
                     c # cs \<Rightarrow> if c = CHR ''+'' \<or> c = CHR ''-'' then cs else ds @ rest
                   | [] \<Rightarrow> ds @ rest) = ds @ rest"
    using decimal_digit_plain(2,3) [OF d] by (simp_all add: ds)
  have "parseInt (ds @ rest) = to_Number False (radix_value 10 0 ds)"
    using prefix digits(1) by (simp add: parseInt_def Let_def trim sign unsigned run)
  then show ?thesis
    using to_Number_exact [OF small] by simp
qed

lemmas parseInt_eval =
  parseInt_def is_white_space_def is_radix_digit_def digit_of_def to_Number_exact

section \<open>Properties of GET /user/:id and DELETE /user/:id\<close>

lemma by_id_reads_parseInt:
  assumes "parseInt p = parseInt q"
  shows "GetUserById validate p c = GetUserById validate q c"
    and "DeleteUserById validate p c = DeleteUserById validate q c"
  unfolding GetUserById_def DeleteUserById_def assms by (rule refl)+

lemma GetUserById_400:
  assumes "GetUserById validate p c = (Sent r, c')" and "res_status r = 400"
  shows "validate (parseInt p) \<noteq> []"
  using assms
  by (auto simp: GetUserById_def Let_def split: prod.splits sum.splits option.splits if_splits)

lemma DeleteUserById_400:
  assumes "DeleteUserById validate p c = (Sent r, c')" and "res_status r = 400"
  shows "validate (parseInt p) \<noteq> []"
  using assms
  by (auto simp: DeleteUserById_def Let_def split: prod.splits sum.splits option.splits if_splits)

text \<open>
  C7 (as amended). Both routes answer in this order. A resolver that throws (a stale
  session) has its error passed to \<^verbatim>\<open>next(err)\<close>. Else 401 when the resolver returns
  no user. Else 400, with the validator's message, when the validator rejects the value
  \<^verbatim>\<open>parseInt\<close> reads from the id. Else 404 when the collaborator's \<^verbatim>\<open>Load\<close> or
  \<^verbatim>\<open>Delete\<close> does not find that value. Else 200 with the \<^verbatim>\<open>UserObject\<close> that
  \<^verbatim>\<open>Load\<close> or \<^verbatim>\<open>Delete\<close> left in the \<^verbatim>\<open>User\<close> instance; DELETE also leaves the
  collaborator as \<^verbatim>\<open>Delete\<close> left it.
\<close>

theorem by_id_status_codes:
  "(LoadLoggedInUser c = (Inl err, c1) \<longrightarrow>
      GetUserById validate p c = (Next err, c1)
      \<and> DeleteUserById validate p c = (Next err, c1))
   \<and> (LoadLoggedInUser c = (Inr None, c1) \<longrightarrow>
      GetUserById validate p c =
        (Sent \<lparr>res_status = 401, res_body = Message ''logged in user required''\<rparr>, c1)
      \<and> DeleteUserById validate p c =
        (Sent \<lparr>res_status = 401, res_body = Message ''logged in user required''\<rparr>, c1))
   \<and> (LoadLoggedInUser c = (Inr (Some caller), c1) \<and> validate (parseInt p) \<noteq> [] \<longrightarrow>
      GetUserById validate p c =
        (Sent \<lparr>res_status = 400, res_body = Message (validate (parseInt p))\<rparr>, c1)
      \<and> DeleteUserById validate p c =
        (Sent \<lparr>res_status = 400, res_body = Message (validate (parseInt p))\<rparr>, c1))
   \<and> (LoadLoggedInUser c = (Inr (Some caller), c1) \<and> validate (parseInt p) = []
        \<and> Load (db c1) (parseInt p) = None \<longrightarrow>
      GetUserById validate p c = (Sent \<lparr>res_status = 404, res_body = StatusText\<rparr>, c1))
   \<and> (LoadLoggedInUser c = (Inr (Some caller), c1) \<and> validate (parseInt p) = []
        \<and> Load (db c1) (parseInt p) = Some target \<longrightarrow>
      GetUserById validate p c =
        (Sent \<lparr>res_status = 200, res_body = UserJson target\<rparr>, c1))
   \<and> (LoadLoggedInUser c = (Inr (Some caller), c1) \<and> validate (parseInt p) = []
        \<and> Delete (db c1) (parseInt p) = (None, d) \<longrightarrow>
      DeleteUserById validate p c =
        (Sent \<lparr>res_status = 404, res_body = StatusText\<rparr>, c1\<lparr>db := d\<rparr>))
   \<and> (LoadLoggedInUser c = (Inr (Some caller), c1) \<and> validate (parseInt p) = []
        \<and> Delete (db c1) (parseInt p) = (Some target, d) \<longrightarrow>
      DeleteUserById validate p c =
        (Sent \<lparr>res_status = 200, res_body = UserJson target\<rparr>, c1\<lparr>db := d\<rparr>))"
  by (simp add: GetUserById_def DeleteUserById_def Let_def)

text \<open>
  Requests on the one account of Alice (id 1): on a stale session; without a login;
  logged in with the ids \<^verbatim>\<open>abc\<close>, \<^verbatim>\<open>7\<close> and \<^verbatim>\<open>1\<close>.
\<close>

theorem by_id_status_codes_witness:
  "fst (GetUserById ValidateNumber ''1'' (ctx_with [alice] 2 (Some 42) browser_cookie)) =
     Next (Error ''stale user session deleted, please try again'')
   \<and> fst (GetUserById ValidateNumber ''1'' (ctx_with [alice] 2 None browser_cookie)) =
     Sent \<lparr>res_status = 401, res_body = Message ''logged in user required''\<rparr>
   \<and> fst (DeleteUserById ValidateNumber ''abc'' (ctx_with [alice] 2 (Some 1) browser_cookie)) =
     Sent \<lparr>res_status = 400, res_body = Message ''not a number''\<rparr>
   \<and> fst (GetUserById ValidateNumber ''7'' (ctx_with [alice] 2 (Some 1) browser_cookie)) =
     Sent \<lparr>res_status = 404, res_body = StatusText\<rparr>
   \<and> fst (DeleteUserById ValidateNumber ''7'' (ctx_with [alice] 2 (Some 1) browser_cookie)) =
     Sent \<lparr>res_status = 404, res_body = StatusText\<rparr>
   \<and> fst (GetUserById ValidateNumber ''1'' (ctx_with [alice] 2 (Some 1) browser_cookie)) =
     Sent \<lparr>res_status = 200, res_body = UserJson alice\<rparr>
   \<and> DeleteUserById ValidateNumber ''1'' (ctx_with [alice] 2 (Some 1) browser_cookie) =
     (Sent \<lparr>res_status = 200, res_body = UserJson alice\<rparr>,
      ctx_with [] 2 (Some 1) browser_cookie)"
proof -
  let ?in = "ctx_with [alice] 2 (Some 1) browser_cookie"
  let ?out = "ctx_with [alice] 2 None browser_cookie"
  let ?stale = "ctx_with [alice] 2 (Some 42) browser_cookie"
  let ?err = "Error ''stale user session deleted, please try again''"
  let ?left = "\<lparr>db_rows = [], db_next_id = 2\<rparr>"
  have stale: "LoadLoggedInUser ?stale = (Inl ?err, DeleteSession ?stale)"
    by (simp add: LoadLoggedInUser_def ctx_with_def session_s1_def Load_def alice_def)
  have anon: "LoadLoggedInUser ?out = (Inr None, ?out)"
    by (simp add: LoadLoggedInUser_def ctx_with_def session_s1_def)
  have login: "LoadLoggedInUser ?in = (Inr (Some alice), ?in)"
    by (simp add: LoadLoggedInUser_def ctx_with_def session_s1_def Load_def alice_def)
  have ids: "parseInt ''abc'' = NaN" "parseInt ''7'' = Num 7" "parseInt ''1'' = Num 1"
    by (simp_all add: parseInt_eval)
  have rows: "Load (db ?in) (Num 7) = None" "Load (db ?in) (Num 1) = Some alice"
    "Delete (db ?in) (Num 7) = (None, db ?in)" "Delete (db ?in) (Num 1) = (Some alice, ?left)"
    by (simp_all add: Delete_def Load_def ctx_with_def alice_def)
  have left: "?in\<lparr>db := ?left\<rparr> = ctx_with [] 2 (Some 1) browser_cookie"
    by (simp add: ctx_with_def)
  show ?thesis
    using by_id_status_codes [of ?stale ?err "DeleteSession ?stale" ValidateNumber "''1''"]
      by_id_status_codes [of ?out ?err ?out ValidateNumber "''1''"]
      by_id_status_codes [of ?in ?err ?in ValidateNumber "''abc''" alice]
      by_id_status_codes [of ?in ?err ?in ValidateNumber "''7''" alice alice "db ?in"]
      by_id_status_codes [of ?in ?err ?in ValidateNumber "''1''" alice alice ?left]
    by (simp add: stale anon login ids rows left ValidateNumber_def)
qed

text \<open>
  The claim as stated fails in two places. A malformed id that starts with an integer is
  not answered 400: DELETE on \<^verbatim>\<open>1abc\<close> answers 200 and deletes the user 1, GET on
  \<^verbatim>\<open>1.9\<close> answers 200 with the user 1, and whatever the validator these ids are
  answered as \<^verbatim>\<open>1\<close> is. And a session from which no identity resolves because it is
  stale is not answered 401: the resolver's error is passed on.
\<close>

theorem malformed_id_and_stale_session:
  "DeleteUserById ValidateNumber ''1abc'' (ctx_with [alice] 2 (Some 1) browser_cookie) =
     (Sent \<lparr>res_status = 200, res_body = UserJson alice\<rparr>,
      ctx_with [] 2 (Some 1) browser_cookie)
   \<and> fst (GetUserById ValidateNumber ''1.9'' (ctx_with [alice] 2 (Some 1) browser_cookie)) =
     Sent \<lparr>res_status = 200, res_body = UserJson alice\<rparr>
   \<and> (\<forall>validate c. GetUserById validate ''1abc'' c = GetUserById validate ''1'' c
        \<and> DeleteUserById validate ''1abc'' c = DeleteUserById validate ''1'' c
        \<and> GetUserById validate ''1.9'' c = GetUserById validate ''1'' c
        \<and> DeleteUserById validate ''1.9'' c = DeleteUserById validate ''1'' c)
   \<and> fst (GetUserById ValidateNumber ''1'' (ctx_with [alice] 2 (Some 42) browser_cookie)) =
     Next (Error ''stale user session deleted, please try again'')
   \<and> fst (DeleteUserById ValidateNumber ''1'' (ctx_with [alice] 2 (Some 42) browser_cookie)) =
     Next (Error ''stale user session deleted, please try again'')"
proof -
  let ?in = "ctx_with [alice] 2 (Some 1) browser_cookie"
  let ?stale = "ctx_with [alice] 2 (Some 42) browser_cookie"
  have parsed: "parseInt ''1abc'' = Num 1" "parseInt ''1.9'' = Num 1" "parseInt ''1'' = Num 1"
    by (simp_all add: parseInt_eval)
  have one: "DeleteUserById ValidateNumber ''1'' ?in =
      (Sent \<lparr>res_status = 200, res_body = UserJson alice\<rparr>, ctx_with [] 2 (Some 1) browser_cookie)"
    "fst (GetUserById ValidateNumber ''1'' ?in) =
      Sent \<lparr>res_status = 200, res_body = UserJson alice\<rparr>"
    by (simp_all add: GetUserById_def DeleteUserById_def Let_def LoadLoggedInUser_def
        ctx_with_def session_s1_def Delete_def Load_def alice_def ValidateNumber_def parsed)
  have stale: "fst (GetUserById ValidateNumber ''1'' ?stale) =
      Next (Error ''stale user session deleted, please try again'')"
    "fst (DeleteUserById ValidateNumber ''1'' ?stale) =
      Next (Error ''stale user session deleted, please try again'')"
    by (simp_all add: GetUserById_def DeleteUserById_def LoadLoggedInUser_def
        ctx_with_def session_s1_def Load_def alice_def)
  have same: "parseInt ''1abc'' = parseInt ''1''" "parseInt ''1.9'' = parseInt ''1''"
    by (simp_all add: parsed)
  show ?thesis
    using by_id_reads_parseInt [OF same(1)] by_id_reads_parseInt [OF same(2)]
    by (simp add: one stale)
qed

text \<open>
  C10 (as amended). Both routes parse the path parameter with \<^verbatim>\<open>parseInt\<close> before they
  validate it. So a parameter that starts with a run of decimal digits \<open>ds\<close>, followed by
  anything that does not go on with a digit, is read as the value of \<open>ds\<close> and gets the
  very answer the parameter \<open>ds\<close> gets; it is not answered 400 when the validator
  accepts that number. This holds for values below \<open>2 ^ 53\<close> and unless the parameter
  starts with the hexadecimal prefix \<^verbatim>\<open>0x\<close> or \<^verbatim>\<open>0X\<close>. For every parameter, 400 is
  answered only when the validator rejects the parsed value.
\<close>

theorem by_id_parseInt_leniency:
  assumes "ds \<noteq> []" and "\<forall>ch\<in>set ds. is_radix_digit 10 ch"
    and "rest = [] \<or> \<not> is_radix_digit 10 (hd rest)"
    and "\<not> (ds = ''0'' \<and> rest \<noteq> [] \<and> (hd rest = CHR ''x'' \<or> hd rest = CHR ''X''))"
    and "radix_value 10 0 ds < 2 ^ 53"
  shows "parseInt (ds @ rest) = Num (int (radix_value 10 0 ds))
       \<and> GetUserById validate (ds @ rest) c = GetUserById validate ds c
       \<and> DeleteUserById validate (ds @ rest) c = DeleteUserById validate ds c
       \<and> (validate (Num (int (radix_value 10 0 ds))) = [] \<longrightarrow>
            (\<forall>r c'. GetUserById validate (ds @ rest) c = (Sent r, c') \<longrightarrow> res_status r \<noteq> 400)
          \<and> (\<forall>r c'. DeleteUserById validate (ds @ rest) c = (Sent r, c') \<longrightarrow> res_status r \<noteq> 400))
       \<and> (\<forall>p r c'. GetUserById validate p c = (Sent r, c') \<and> res_status r = 400 \<longrightarrow>
            validate (parseInt p) \<noteq> [])
       \<and> (\<forall>p r c'. DeleteUserById validate p c = (Sent r, c') \<and> res_status r = 400 \<longrightarrow>
            validate (parseInt p) \<noteq> [])"
proof -
  have whole: "parseInt (ds @ rest) = Num (int (radix_value 10 0 ds))"
    using assms by (rule parseInt_decimal_prefix)
  have alone: "parseInt (ds @ []) = Num (int (radix_value 10 0 ds))"
    using assms(1,2) _ _ assms(5) by (rule parseInt_decimal_prefix) simp_all
  have same: "parseInt (ds @ rest) = parseInt ds"
    using whole alone by simp
  have accepted: "res_status r \<noteq> 400"
    if "validate (Num (int (radix_value 10 0 ds))) = []"
      and "GetUserById validate (ds @ rest) c = (Sent r, c')
         \<or> DeleteUserById validate (ds @ rest) c = (Sent r, c')" for r c'
    using that GetUserById_400 [of validate "ds @ rest" c r c']
      DeleteUserById_400 [of validate "ds @ rest" c r c']
    by (auto simp: whole)
  show ?thesis
    using whole by_id_reads_parseInt [OF same] accepted GetUserById_400 DeleteUserById_400
    by blast
qed

text \<open>
  The claim's example: \<^verbatim>\<open>42abc\<close> is read as 42 and, no user 42 existing, answered 404
  rather than 400; \<^verbatim>\<open>1abc\<close> gets Alice, the user 1.
\<close>

theorem by_id_parseInt_leniency_witness:
  "parseInt ''42abc'' = Num 42
   \<and> fst (GetUserById ValidateNumber ''42abc'' (ctx_with [alice] 2 (Some 1) browser_cookie)) =
       Sent \<lparr>res_status = 404, res_body = StatusText\<rparr>
   \<and> fst (GetUserById ValidateNumber ''1abc'' (ctx_with [alice] 2 (Some 1) browser_cookie)) =
       Sent \<lparr>res_status = 200, res_body = UserJson alice\<rparr>"
proof -
  let ?c = "ctx_with [alice] 2 (Some 1) browser_cookie"
  have digit: "is_radix_digit 10 CHR ''4''" "is_radix_digit 10 CHR ''2''"
    "is_radix_digit 10 CHR ''1''" "\<not> is_radix_digit 10 CHR ''a''"
    by (simp_all add: is_radix_digit_def digit_of_def)
  have val: "radix_value 10 0 ''42'' = 42" "radix_value 10 0 ''1'' = 1"
    by (simp_all add: digit_of_def)
  have ask42: "parseInt (''42'' @ ''abc'') = Num 42
      \<and> GetUserById ValidateNumber (''42'' @ ''abc'') ?c = GetUserById ValidateNumber ''42'' ?c"
    using by_id_parseInt_leniency [of "''42''" "''abc''" ValidateNumber ?c] digit val
    by simp
  have ask1: "GetUserById ValidateNumber (''1'' @ ''abc'') ?c = GetUserById ValidateNumber ''1'' ?c"
    using by_id_parseInt_leniency [of "''1''" "''abc''" ValidateNumber ?c] digit val
    by simp
  have plain: "fst (GetUserById ValidateNumber ''42'' ?c) =
      Sent \<lparr>res_status = 404, res_body = StatusText\<rparr>"
    "fst (GetUserById ValidateNumber ''1'' ?c) =
      Sent \<lparr>res_status = 200, res_body = UserJson alice\<rparr>"
    by (simp_all add: GetUserById_def Let_def LoadLoggedInUser_def ctx_with_def session_s1_def
        Load_def alice_def ValidateNumber_def parseInt_eval)
  show ?thesis
    using ask42 ask1 plain by simp
qed

text \<open>
  The claim as stated fails on the hexadecimal prefix. \<^verbatim>\<open>0xg\<close> starts with the integer
  0, yet it parses to \<^verbatim>\<open>NaN\<close> and is answered 400 where \<^verbatim>\<open>0\<close> is answered with the
  user 0; \<^verbatim>\<open>0x1\<close> is read as 1, not 0, and answered with the user 1. Whatever the
  validator, \<^verbatim>\<open>0xg\<close> is answered as \<^verbatim>\<open>abc\<close> is, and \<^verbatim>\<open>0x1\<close> as \<^verbatim>\<open>1\<close> is.
\<close>

theorem hex_prefix_is_not_leading_zero:
  "parseInt ''0xg'' = NaN \<and> parseInt ''0x1'' = Num 1
   \<and> fst (GetUserById ValidateNumber ''0'' (ctx_with [zed, alice] 2 (Some 1) browser_cookie)) =
       Sent \<lparr>res_status = 200, res_body = UserJson zed\<rparr>
   \<and> fst (GetUserById ValidateNumber ''0xg'' (ctx_with [zed, alice] 2 (Some 1) browser_cookie)) =
       Sent \<lparr>res_status = 400, res_body = Message ''not a number''\<rparr>
   \<and> fst (GetUserById ValidateNumber ''0x1'' (ctx_with [zed, alice] 2 (Some 1) browser_cookie)) =
       Sent \<lparr>res_status = 200, res_body = UserJson alice\<rparr>
   \<and> (\<forall>validate c. GetUserById validate ''0xg'' c = GetUserById validate ''abc'' c
        \<and> DeleteUserById validate ''0xg'' c = DeleteUserById validate ''abc'' c)
   \<and> (\<forall>validate c. GetUserById validate ''0x1'' c = GetUserById validate ''1'' c
        \<and> DeleteUserById validate ''0x1'' c = DeleteUserById validate ''1'' c)"
proof -
  have parsed: "parseInt ''0xg'' = NaN" "parseInt ''0x1'' = Num 1"
    "parseInt ''abc'' = NaN" "parseInt ''1'' = Num 1" "parseInt ''0'' = Num 0"
    by (simp_all add: parseInt_eval)
  have answers: "fst (GetUserById ValidateNumber p (ctx_with [zed, alice] 2 (Some 1) browser_cookie)) =
      (case parseInt p of
         NaN \<Rightarrow> Sent \<lparr>res_status = 400, res_body = Message ''not a number''\<rparr>
       | Num i \<Rightarrow>
           if i = 0 then Sent \<lparr>res_status = 200, res_body = UserJson zed\<rparr>
           else if i = 1 then Sent \<lparr>res_status = 200, res_body = UserJson alice\<rparr>
           else Sent \<lparr>res_status = 404, res_body = StatusText\<rparr>
       | other \<Rightarrow> Sent \<lparr>res_status = 404, res_body = StatusText\<rparr>)" for p
    by (simp add: GetUserById_def Let_def LoadLoggedInUser_def ctx_with_def session_s1_def
        Load_def alice_def zed_def ValidateNumber_def split: js_number.splits)
  show ?thesis
    using by_id_reads_parseInt [of "''0xg''" "''abc''"] by_id_reads_parseInt [of "''0x1''" "''1''"]
    by (simp add: parsed answers)
qed

section \<open>Properties of the SessionManager constructor\<close>

lemma createStore_as_method:
  "invoke (ThisMethod ''_createStore'') cfg this = Inr (createStore cfg this)"
  by (simp add: invoke_def)

text \<open>
  C9. The constructor never returns an instance, whatever the configuration: its call
  of \<^verbatim>\<open>_createStore()\<close> names a free identifier that no scope binds, so it raises a
  ReferenceError on every instance, before \<^verbatim>\<open>this.store\<close> or the middleware is set.
  (Called as a method, \<^verbatim>\<open>this._createStore()\<close> would run: \<open>createStore_as_method\<close>.)
\<close>

theorem SessionManager_constructor_throws:
  "SessionManager_constructor cfg = Inl (ReferenceError ''_createStore is not defined'')
   \<and> (\<forall>this. SessionManager_constructor cfg \<noteq> Inr this)
   \<and> (\<forall>this. invoke (Free ''_createStore'') cfg this =
        Inl (ReferenceError ''_createStore is not defined''))"
proof -
  have unbound: "''_createStore'' \<notin> set module_scope"
    by (simp add: module_scope_def)
  have call: "invoke (Free ''_createStore'') cfg this =
      Inl (ReferenceError ''_createStore is not defined'')" for this
    using unbound by (simp add: invoke_def)
  have "SessionManager_constructor cfg = Inl (ReferenceError ''_createStore is not defined'')"
    by (simp add: SessionManager_constructor_def call)
  then show ?thesis
    using call by simp
qed

theorem SessionManager_constructor_throws_witness:
  "SessionManager_constructor (config_with_store ''memorystore'') =
     Inl (ReferenceError ''_createStore is not defined'')
   \<and> SessionManager_constructor (config_with_store ''redis'') =
     Inl (ReferenceError ''_createStore is not defined'')"
  using SessionManager_constructor_throws [of "config_with_store ''memorystore''"]
    SessionManager_constructor_throws [of "config_with_store ''redis''"]
  by simp

end
